theory Spec2Isabelle
  imports Main
begin

section \<open>The page: elements, selectors and media state\<close>

text \<open>
  The script \<^verbatim>\<open>static/js/index.js\<close> works on the live DOM. An element is modelled by
  its identity (elements are objects, compared by reference), its local name, its class
  list and its children in document order. All elements are HTML elements, so an element
  named \<^verbatim>\<open>video\<close> is a media element with \<^verbatim>\<open>pause()\<close> and \<^verbatim>\<open>play()\<close>.
\<close>

datatype element =
  Element (ident: nat) (localName: string) (classList: "string list") (children: "element list")

text \<open>The element and everything below it, in document (pre-)order.\<close>

fun subtree :: "element \<Rightarrow> element list" where
  "subtree (Element i n cs ks) = Element i n cs ks # concat (map subtree ks)"

text \<open>The descendants of an element: the element itself is not one of them.\<close>

definition descendants :: "element \<Rightarrow> element list" where
  "descendants e = concat (map subtree (children e))"

text \<open>
  The three selectors of the script are compound selectors of two shapes:
  \<^verbatim>\<open>.a.b\<close> (every listed class is present) and \<^verbatim>\<open>name\<close> (a type selector).
\<close>

datatype selector = Class_Selector "string list" | Type_Selector string

fun matches :: "selector \<Rightarrow> element \<Rightarrow> bool" where
  "matches (Class_Selector cs) e = (set cs \<subseteq> set (classList e))"
| "matches (Type_Selector n) e = (localName e = n)"

text \<open>\<^verbatim>\<open>element.querySelectorAll(sel)\<close>: the matching descendants, in document order.\<close>

definition querySelectorAll :: "selector \<Rightarrow> element \<Rightarrow> element list" where
  "querySelectorAll sel e = filter (matches sel) (descendants e)"

text \<open>\<^verbatim>\<open>element.querySelector(sel)\<close>: the first matching descendant, or null.\<close>

definition querySelector :: "selector \<Rightarrow> element \<Rightarrow> element option" where
  "querySelector sel e = (case querySelectorAll sel e of [] \<Rightarrow> None | x # _ \<Rightarrow> Some x)"

text \<open>\<^verbatim>\<open>element.getElementsByTagName(name)\<close>: the descendants of that name.\<close>

definition getElementsByTagName :: "string \<Rightarrow> element \<Rightarrow> element list" where
  "getElementsByTagName n e = filter (\<lambda>x. localName x = n) (descendants e)"

text \<open>
  \<^verbatim>\<open>document.querySelectorAll(sel)\<close>: the document is given by its root element, which
  can match itself.
\<close>

definition document_querySelectorAll :: "selector \<Rightarrow> element \<Rightarrow> element list" where
  "document_querySelectorAll sel root = filter (matches sel) (subtree root)"

text \<open>The selectors written in the script.\<close>

definition carousel_selector :: selector where
  "carousel_selector = Class_Selector [''carousel'']"

definition active_slide_selector :: selector where
  "active_slide_selector = Class_Selector [''slider-item'', ''is-active'']"

definition video_selector :: selector where
  "video_selector = Type_Selector ''video''"

subsection \<open>Carousel instances\<close>

record carousel_options =
  slidesToScroll :: nat
  slidesToShow :: nat
  loop :: bool
  infinite' :: bool
  autoplay :: bool
  autoplaySpeed :: nat

text \<open>
  The two arrow functions handed to \<^verbatim>\<open>carousel.on\<close>. Each closes over the loop
  variable \<^verbatim>\<open>carousel\<close> only, which is the instance it is registered on.
\<close>

datatype callback = Before_Show_Callback | Shown_Callback

record carousel =
  element :: element
  settings :: carousel_options
  listeners :: "(string \<times> callback) list"

subsection \<open>The state of the page\<close>

text \<open>
  What a script can observe or change: the document, the \<^verbatim>\<open>paused\<close> attribute of each
  media element (by element identity), the calls made on media elements so far, the
  widgets attached so far, the requests sent over the network and the web storage.
\<close>

datatype media_call = Pause nat | Play nat

record page =
  document :: element
  paused :: "nat \<Rightarrow> bool"
  media_calls :: "media_call list"
  carousels :: "carousel list"
  sliders :: "element list"
  requests :: "string list"
  storage :: "string \<rightharpoonup> string"

text \<open>
  \<^verbatim>\<open>video.pause()\<close> sets the \<^verbatim>\<open>paused\<close> attribute; \<^verbatim>\<open>video.play()\<close> clears it
  (playback is taken to be allowed by the browser).
\<close>

definition pause :: "element \<Rightarrow> page \<Rightarrow> page" where
  "pause video p =
     p\<lparr>paused := (paused p)(ident video := True),
       media_calls := media_calls p @ [Pause (ident video)]\<rparr>"

definition play :: "element \<Rightarrow> page \<Rightarrow> page" where
  "play video p =
     p\<lparr>paused := (paused p)(ident video := False),
       media_calls := media_calls p @ [Play (ident video)]\<rparr>"

section \<open>The callbacks\<close>

text \<open>
  \<^verbatim>\<open>
  carousel.on('before:show', () => {
      const videos = carousel.element.getElementsByTagName('video');
      Array.from(videos).forEach(video => { video.pause(); });
  });
  \<close>
\<close>

definition before_show :: "carousel \<Rightarrow> page \<Rightarrow> page" where
  "before_show carousel p =
     (let videos = getElementsByTagName ''video'' (element carousel)
      in fold pause videos p)"

text \<open>
  \<^verbatim>\<open>
  carousel.on('shown', () => {
      const currentSlide = carousel.element.querySelector('.slider-item.is-active');
      if (currentSlide) {
          const video = currentSlide.querySelector('video');
          if (video) { video.play(); }
      }
  });
  \<close>
\<close>

definition shown :: "carousel \<Rightarrow> page \<Rightarrow> page" where
  "shown carousel p =
     (case querySelector active_slide_selector (element carousel) of
        None \<Rightarrow> p
      | Some currentSlide \<Rightarrow>
          (case querySelector video_selector currentSlide of
             None \<Rightarrow> p
           | Some video \<Rightarrow> play video p))"

text \<open>Running a registered callback on the instance it was registered on.\<close>

fun invoke :: "callback \<Rightarrow> carousel \<Rightarrow> page \<Rightarrow> page" where
  "invoke Before_Show_Callback c p = before_show c p"
| "invoke Shown_Callback c p = shown c p"

section \<open>The initializer\<close>

text \<open>The \<^verbatim>\<open>options\<close> object literal.\<close>

definition options :: carousel_options where
  "options =
     \<lparr>slidesToScroll = 1, slidesToShow = 1, loop = True, infinite' = True,
      autoplay = False, autoplaySpeed = 5000\<rparr>"

text \<open>
  Modelled from the spec: \<^verbatim>\<open>bulmaCarousel.attach\<close>, the entry point of the carousel
  library, whose code is not part of the script. It "attaches a carousel widget to every
  element matching a fixed selector; returns a collection of carousel instances", and
  over no matching element it is "a no-op over an empty set".
\<close>

definition bulmaCarousel_attach :: "selector \<Rightarrow> carousel_options \<Rightarrow> element \<Rightarrow> carousel list" where
  "bulmaCarousel_attach sel opts root =
     map (\<lambda>e. \<lparr>element = e, settings = opts, listeners = []\<rparr>)
       (document_querySelectorAll sel root)"

text \<open>
  Modelled from the spec: \<^verbatim>\<open>carousel.on(name, callback)\<close>, the "subscription mechanism
  for named lifecycle events on each instance" of the carousel library.
\<close>

definition on :: "string \<Rightarrow> callback \<Rightarrow> carousel \<Rightarrow> carousel" where
  "on name cb c = c\<lparr>listeners := listeners c @ [(name, cb)]\<rparr>"

text \<open>
  Modelled from the spec: \<^verbatim>\<open>bulmaSlider.attach()\<close>, the entry point of the slider
  library. It "attaches a slider widget to every element matching a second fixed
  selector"; that selector is the library's default and is a parameter here.
\<close>

definition bulmaSlider_attach :: "selector \<Rightarrow> element \<Rightarrow> element list" where
  "bulmaSlider_attach slider_selector root = document_querySelectorAll slider_selector root"

text \<open>The body of the loop \<^verbatim>\<open>carousels.forEach(carousel => { ... })\<close>.\<close>

definition register_callbacks :: "carousel \<Rightarrow> carousel" where
  "register_callbacks carousel =
     on ''shown'' Shown_Callback (on ''before:show'' Before_Show_Callback carousel)"

text \<open>The function passed to \<^verbatim>\<open>$(document).ready\<close>.\<close>

definition initialize :: "selector \<Rightarrow> page \<Rightarrow> page" where
  "initialize slider_selector p =
     (let attached = bulmaCarousel_attach carousel_selector options (document p);
          registered = map register_callbacks attached
      in p\<lparr>carousels := carousels p @ registered,
           sliders := sliders p @ bulmaSlider_attach slider_selector (document p)\<rparr>)"

section \<open>Sample pages\<close>

text \<open>A page that has just been loaded: every media element paused, nothing attached.\<close>

definition fresh_page :: "element \<Rightarrow> page" where
  "fresh_page root =
     \<lparr>document = root, paused = (\<lambda>_. True), media_calls = [], carousels = [],
      sliders = [], requests = [], storage = Map.empty\<rparr>"

text \<open>A page like it, on which every media element is playing.\<close>

definition playing_page :: "element \<Rightarrow> page" where
  "playing_page root = (fresh_page root)\<lparr>paused := (\<lambda>_. False)\<rparr>"

definition range_selector :: selector where
  "range_selector = Class_Selector [''slider'']"

text \<open>Two carousels side by side, one slide with one video each, and a range input.\<close>

definition video_A :: element where
  "video_A = Element 3 ''video'' [] []"

definition slide_A :: element where
  "slide_A = Element 2 ''div'' [''slider-item'', ''is-active''] [video_A]"

definition gallery_A :: element where
  "gallery_A = Element 1 ''div'' [''carousel''] [slide_A]"

definition video_B :: element where
  "video_B = Element 6 ''video'' [] []"

definition slide_B :: element where
  "slide_B = Element 5 ''div'' [''slider-item'', ''is-active''] [video_B]"

definition gallery_B :: element where
  "gallery_B = Element 4 ''div'' [''carousel''] [slide_B]"

definition range_input :: element where
  "range_input = Element 7 ''input'' [''slider''] []"

definition two_gallery_root :: element where
  "two_gallery_root = Element 0 ''body'' [] [gallery_A, gallery_B, range_input]"

definition registered :: "element \<Rightarrow> carousel" where
  "registered e =
     \<lparr>element = e, settings = options,
      listeners = [(''before:show'', Before_Show_Callback), (''shown'', Shown_Callback)]\<rparr>"

text \<open>A page with a range input and no carousel.\<close>

definition slider_only_root :: element where
  "slider_only_root = Element 0 ''body'' [] [Element 1 ''p'' [] [], range_input]"

text \<open>A carousel whose only slide holds a second carousel.\<close>

definition inner_video :: element where
  "inner_video = Element 5 ''video'' [] []"

definition inner_gallery :: element where
  "inner_gallery =
     Element 3 ''div'' [''carousel'']
       [Element 4 ''div'' [''slider-item'', ''is-active''] [inner_video]]"

definition outer_gallery :: element where
  "outer_gallery =
     Element 1 ''div'' [''carousel'']
       [Element 2 ''div'' [''slider-item'', ''is-active''] [inner_gallery]]"

definition nested_root :: element where
  "nested_root = Element 0 ''body'' [] [outer_gallery]"

text \<open>
  A carousel of three slides, seen before and after the library has moved the active
  flag from one slide to another (\<open>reel k\<close> has slide \<open>k\<close> active, \<open>reel 0\<close> none): the
  first slide holds one video, the second a caption and one video, the third two videos,
  the fourth an image.
\<close>

definition clip_1 :: element where
  "clip_1 = Element 11 ''video'' [] []"

definition clip_2 :: element where
  "clip_2 = Element 13 ''video'' [] []"

definition clip_3 :: element where
  "clip_3 = Element 16 ''video'' [] []"

definition clip_4 :: element where
  "clip_4 = Element 17 ''video'' [] []"

definition slide_1 :: "bool \<Rightarrow> element" where
  "slide_1 active =
     Element 10 ''div'' (''slider-item'' # (if active then [''is-active''] else [])) [clip_1]"

definition slide_2 :: "bool \<Rightarrow> element" where
  "slide_2 active =
     Element 12 ''div'' (''slider-item'' # (if active then [''is-active''] else []))
       [Element 14 ''p'' [] [], clip_2]"

definition slide_3 :: "bool \<Rightarrow> element" where
  "slide_3 active =
     Element 15 ''div'' (''slider-item'' # (if active then [''is-active''] else []))
       [clip_3, clip_4]"

definition slide_4 :: "bool \<Rightarrow> element" where
  "slide_4 active =
     Element 18 ''div'' (''slider-item'' # (if active then [''is-active''] else []))
       [Element 19 ''img'' [] []]"

definition reel :: "nat \<Rightarrow> element" where
  "reel active =
     Element 9 ''div'' [''carousel'']
       [slide_1 (active = 1), slide_2 (active = 2), slide_3 (active = 3), slide_4 (active = 4)]"

text \<open>
  A page with the two carousels side by side and a third one, whose first slide is not
  active and holds a carousel of its own, and whose second slide is the active one.
\<close>

definition nested_clip :: element where
  "nested_clip = Element 25 ''video'' [] []"

definition nested_gallery :: element where
  "nested_gallery =
     Element 23 ''div'' [''carousel'']
       [Element 24 ''div'' [''slider-item'', ''is-active''] [nested_clip]]"

definition early_slide :: element where
  "early_slide = Element 22 ''div'' [''slider-item''] [nested_gallery]"

definition late_clip :: element where
  "late_clip = Element 27 ''video'' [] []"

definition late_slide :: element where
  "late_slide = Element 26 ''div'' [''slider-item'', ''is-active''] [late_clip]"

definition nesting_gallery :: element where
  "nesting_gallery = Element 21 ''div'' [''carousel''] [early_slide, late_slide]"

definition showcase_root :: element where
  "showcase_root = Element 0 ''body'' [] [gallery_A, gallery_B, nesting_gallery]"

text \<open>A carousel without slides.\<close>

definition empty_gallery :: element where
  "empty_gallery = Element 20 ''div'' [''carousel''] []"

section \<open>Auxiliary facts\<close>

lemma fold_pause_paused:
  "paused (fold pause vs p) = (\<lambda>i. if i \<in> ident ` set vs then True else paused p i)"
  by (induction vs arbitrary: p) (auto simp: pause_def fun_eq_iff)

lemma fold_pause_media_calls:
  "media_calls (fold pause vs p) = media_calls p @ map (\<lambda>v. Pause (ident v)) vs"
  by (induction vs arbitrary: p) (auto simp: pause_def)

lemma fold_pause_eq:
  "fold pause vs p =
     p\<lparr>paused := (\<lambda>i. if i \<in> ident ` set vs then True else paused p i),
       media_calls := media_calls p @ map (\<lambda>v. Pause (ident v)) vs\<rparr>"
proof (induction vs arbitrary: p)
  case Nil
  show ?case by simp
next
  case (Cons v vs)
  have "fold pause (v # vs) p = fold pause vs (pause v p)" by simp
  also have "\<dots> =
      (pause v p)\<lparr>paused := (\<lambda>i. if i \<in> ident ` set vs then True else paused (pause v p) i),
        media_calls := media_calls (pause v p) @ map (\<lambda>v. Pause (ident v)) vs\<rparr>"
    by (rule Cons.IH)
  also have "\<dots> =
      p\<lparr>paused := (\<lambda>i. if i \<in> ident ` set (v # vs) then True else paused p i),
        media_calls := media_calls p @ map (\<lambda>v. Pause (ident v)) (v # vs)\<rparr>"
    by (auto simp: pause_def fun_eq_iff)
  finally show ?case .
qed

lemma subtree_eq: "subtree e = e # descendants e"
  by (cases e) (simp add: descendants_def)

lemma distinct_map_concat_member:
  "distinct (map f (concat xss)) \<Longrightarrow> xs \<in> set xss \<Longrightarrow> distinct (map f xs)"
  by (induction xss) auto

lemma subtree_trans:
  "x \<in> set (subtree e) \<Longrightarrow> set (subtree x) \<subseteq> set (subtree e)"
proof (induction e rule: subtree.induct)
  case (1 i n cs ks)
  show ?case
  proof (cases "x = Element i n cs ks")
    case True
    then show ?thesis by simp
  next
    case False
    with "1.prems" obtain k where k: "k \<in> set ks" "x \<in> set (subtree k)" by auto
    then have "set (subtree x) \<subseteq> set (subtree k)" by (rule_tac "1.IH")
    with k show ?thesis by auto
  qed
qed

lemma descendants_trans:
  assumes "x \<in> set (descendants e)"
  shows "set (descendants x) \<subseteq> set (descendants e)"
proof -
  from assms obtain k where k: "k \<in> set (children e)" "x \<in> set (subtree k)"
    by (auto simp: descendants_def)
  then have "set (subtree x) \<subseteq> set (subtree k)" by (rule_tac subtree_trans)
  moreover have "set (descendants x) \<subseteq> set (subtree x)" by (auto simp: subtree_eq)
  ultimately show ?thesis using k by (auto simp: descendants_def)
qed

lemma subtree_distinct:
  "x \<in> set (subtree e) \<Longrightarrow> distinct (map ident (subtree e))
   \<Longrightarrow> distinct (map ident (subtree x))"
proof (induction e rule: subtree.induct)
  case (1 i n cs ks)
  show ?case
  proof (cases "x = Element i n cs ks")
    case True
    with "1.prems" show ?thesis by simp
  next
    case False
    with "1.prems" obtain k where k: "k \<in> set ks" "x \<in> set (subtree k)" by auto
    from "1.prems"(2) have "distinct (map ident (concat (map subtree ks)))" by simp
    moreover from k(1) have "subtree k \<in> set (map subtree ks)" by simp
    ultimately have "distinct (map ident (subtree k))"
      by (rule distinct_map_concat_member)
    with k show ?thesis by (rule_tac "1.IH")
  qed
qed

lemma descendants_distinct:
  assumes "x \<in> set (descendants e)" "distinct (map ident (descendants e))"
  shows "distinct (map ident (descendants x))"
proof -
  from assms(1) obtain k where k: "k \<in> set (children e)" "x \<in> set (subtree k)"
    by (auto simp: descendants_def)
  from assms(2) have "distinct (map ident (concat (map subtree (children e))))"
    by (simp add: descendants_def)
  moreover from k(1) have "subtree k \<in> set (map subtree (children e))" by simp
  ultimately have "distinct (map ident (subtree k))"
    by (rule distinct_map_concat_member)
  with k(2) have "distinct (map ident (subtree x))" by (rule subtree_distinct)
  then show ?thesis by (simp add: subtree_eq)
qed

text \<open>A type selector finds what \<^verbatim>\<open>getElementsByTagName\<close> lists first.\<close>

lemma querySelector_video:
  "querySelector video_selector e =
     (case getElementsByTagName ''video'' e of [] \<Rightarrow> None | x # _ \<Rightarrow> Some x)"
proof -
  have "matches (Type_Selector ''video'') = (\<lambda>x. localName x = ''video'')"
    by (simp add: fun_eq_iff)
  then show ?thesis
    by (simp add: querySelector_def querySelectorAll_def getElementsByTagName_def
        video_selector_def)
qed

lemma querySelector_SomeD:
  assumes "querySelector sel e = Some x"
  shows "x \<in> set (descendants e)"
proof -
  from assms obtain xs where "filter (matches sel) (descendants e) = x # xs"
    by (auto simp: querySelector_def querySelectorAll_def split: list.splits)
  then have "x \<in> set (filter (matches sel) (descendants e))" by simp
  then show ?thesis by simp
qed

lemma shown_play:
  assumes "querySelector active_slide_selector (element c) = Some slide"
    and "getElementsByTagName ''video'' slide = video # rest"
  shows "shown c p = play video p"
  using assms by (simp add: shown_def querySelector_video)

lemma slide_videos_subset:
  assumes "querySelector active_slide_selector (element c) = Some slide"
  shows "set (getElementsByTagName ''video'' slide)
         \<subseteq> set (getElementsByTagName ''video'' (element c))"
proof -
  from assms have "slide \<in> set (descendants (element c))" by (rule querySelector_SomeD)
  then have "set (descendants slide) \<subseteq> set (descendants (element c))"
    by (rule descendants_trans)
  then show ?thesis by (auto simp: getElementsByTagName_def)
qed

lemma slide_videos_distinct:
  assumes "querySelector active_slide_selector (element c) = Some slide"
    and "distinct (map ident (descendants (element c)))"
  shows "distinct (map ident (getElementsByTagName ''video'' slide))"
proof -
  from assms(1) have "slide \<in> set (descendants (element c))" by (rule querySelector_SomeD)
  then have "distinct (map ident (descendants slide))"
    using assms(2) by (rule descendants_distinct)
  then show ?thesis by (simp add: getElementsByTagName_def distinct_map_filter)
qed

lemma before_show_paused:
  "paused (before_show c p) =
     (\<lambda>i. if i \<in> ident ` set (getElementsByTagName ''video'' (element c)) then True
          else paused p i)"
  by (simp add: before_show_def fold_pause_paused)

lemma initialize_eq:
  "initialize sl p =
     p\<lparr>carousels := carousels p
          @ map register_callbacks (bulmaCarousel_attach carousel_selector options (document p)),
       sliders := sliders p @ bulmaSlider_attach sl (document p)\<rparr>"
  by (simp add: initialize_def)

lemma invoke_eq:
  "\<exists>flags calls. invoke cb c q = q\<lparr>paused := flags, media_calls := media_calls q @ calls\<rparr>"
proof (cases cb)
  case Before_Show_Callback
  have "invoke cb c q = fold pause (getElementsByTagName ''video'' (element c)) q"
    by (simp add: Before_Show_Callback before_show_def)
  then show ?thesis
    unfolding fold_pause_eq by blast
next
  case Shown_Callback
  have unchanged: "q = q\<lparr>paused := paused q, media_calls := media_calls q @ []\<rparr>"
    by simp
  have "shown c q = q \<or> (\<exists>video. shown c q = play video q)"
    by (auto simp: shown_def split: option.splits)
  then show ?thesis
  proof
    assume "shown c q = q"
    with Shown_Callback have "invoke cb c q = q" by simp
    with unchanged show ?thesis by metis
  next
    assume "\<exists>video. shown c q = play video q"
    with Shown_Callback show ?thesis by (auto simp: play_def)
  qed
qed

lemmas sample_defs =
  fresh_page_def playing_page_def range_selector_def video_A_def slide_A_def gallery_A_def
  video_B_def slide_B_def gallery_B_def range_input_def two_gallery_root_def registered_def
  slider_only_root_def inner_video_def inner_gallery_def outer_gallery_def nested_root_def
  clip_1_def clip_2_def clip_3_def clip_4_def slide_1_def slide_2_def slide_3_def slide_4_def
  reel_def empty_gallery_def nested_clip_def nested_gallery_def early_slide_def late_clip_def
  late_slide_def nesting_gallery_def showcase_root_def

lemmas query_defs =
  descendants_def querySelectorAll_def querySelector_def getElementsByTagName_def
  document_querySelectorAll_def carousel_selector_def active_slide_selector_def
  video_selector_def

section \<open>The before:show callback\<close>

text \<open>
  Claim C2. When the before:show callback of a carousel fires, it calls pause on every
  video element in the subtree of that carousel's element, whatever its state was, so that
  afterwards each of them is paused; the calls made are exactly one pause per video, in
  document order; with no video in the subtree the page is left as it was.
\<close>

theorem before_show_pauses_every_video:
  "(\<forall>video \<in> set (getElementsByTagName ''video'' (element c)).
       paused (before_show c p) (ident video))
   \<and> media_calls (before_show c p) =
       media_calls p @ map (\<lambda>v. Pause (ident v)) (getElementsByTagName ''video'' (element c))
   \<and> (getElementsByTagName ''video'' (element c) = [] \<longrightarrow> before_show c p = p)"
  by (simp add: before_show_def fold_pause_paused fold_pause_media_calls)

theorem before_show_pauses_every_video_witness:
  "getElementsByTagName ''video'' (element (registered (reel 1))) = [clip_1, clip_2, clip_3, clip_4]
   \<and> \<not> paused (playing_page (reel 1)) (ident clip_3)
   \<and> paused (before_show (registered (reel 1)) (playing_page (reel 1))) (ident clip_3)
   \<and> getElementsByTagName ''video'' (element (registered empty_gallery)) = []
   \<and> before_show (registered empty_gallery) (playing_page empty_gallery)
       = playing_page empty_gallery"
  using before_show_pauses_every_video [of "registered (reel 1)" "playing_page (reel 1)"]
    before_show_pauses_every_video [of "registered empty_gallery" "playing_page empty_gallery"]
  by (simp add: sample_defs query_defs)

section \<open>The shown callback\<close>


text \<open>
  Claim C9. When the active slide contains several video elements, the shown callback
  calls play on the first of them in document order and makes no other call: the
  \<^verbatim>\<open>paused\<close> attribute of every further video of the slide is what it was.
\<close>

theorem shown_plays_first_video_only:
  assumes "querySelector active_slide_selector (element c) = Some slide"
    and "getElementsByTagName ''video'' slide = first # rest"
    and "rest \<noteq> []"
    and "distinct (map ident (descendants (element c)))"
  shows "shown c p = play first p
       \<and> \<not> paused (shown c p) (ident first)
       \<and> media_calls (shown c p) = media_calls p @ [Play (ident first)]
       \<and> (\<forall>video \<in> set rest. paused (shown c p) (ident video) = paused p (ident video))"
proof -
  have played: "shown c p = play first p"
    using assms(1,2) by (rule shown_play)
  from assms(1,4) have "distinct (map ident (getElementsByTagName ''video'' slide))"
    by (rule slide_videos_distinct)
  with assms(2) have "ident first \<notin> ident ` set rest" by simp
  then have "\<forall>video \<in> set rest. ident video \<noteq> ident first" by (metis imageI)
  then have "\<forall>video \<in> set rest. paused (play first p) (ident video) = paused p (ident video)"
    by (simp add: play_def)
  with played show ?thesis by (simp add: play_def)
qed


theorem shown_plays_first_video_only_witness:
  "querySelector active_slide_selector (element (registered (reel 3))) = Some (slide_3 True)
   \<and> getElementsByTagName ''video'' (slide_3 True) = [clip_3, clip_4]
   \<and> distinct (map ident (descendants (element (registered (reel 3)))))
   \<and> \<not> paused (shown (registered (reel 3)) (fresh_page (reel 3))) (ident clip_3)
   \<and> paused (shown (registered (reel 3)) (fresh_page (reel 3))) (ident clip_4)
   \<and> media_calls (shown (registered (reel 3)) (fresh_page (reel 3))) = [Play 16]"
  using shown_plays_first_video_only [of "registered (reel 3)" "slide_3 True" clip_3 "[clip_4]"
      "fresh_page (reel 3)"]
  by (simp add: sample_defs query_defs shown_def play_def)

section \<open>Which videos a callback touches\<close>

text \<open>
  Claim C10, as amended. The before:show callback of a carousel changes the playback
  state of video elements in the subtree of that carousel's own element only: the
  \<^verbatim>\<open>paused\<close> attribute of every element outside that list of videos is what it was, and
  so is that of every video of another carousel instance whose subtree shares no video
  with this one.
\<close>

theorem before_show_leaves_other_videos:
  "(\<forall>i. i \<notin> ident ` set (getElementsByTagName ''video'' (element c)) \<longrightarrow>
        paused (before_show c p) i = paused p i)
   \<and> (\<forall>d. ident ` set (getElementsByTagName ''video'' (element d))
            \<inter> ident ` set (getElementsByTagName ''video'' (element c)) = {} \<longrightarrow>
         (\<forall>video \<in> set (getElementsByTagName ''video'' (element d)).
            paused (before_show c p) (ident video) = paused p (ident video)))"
  by (auto simp: before_show_paused)

theorem before_show_leaves_other_videos_witness:
  "ident ` set (getElementsByTagName ''video'' (element (registered gallery_B)))
     \<inter> ident ` set (getElementsByTagName ''video'' (element (registered gallery_A))) = {}
   \<and> video_B \<in> set (getElementsByTagName ''video'' (element (registered gallery_B)))
   \<and> \<not> paused (playing_page two_gallery_root) (ident video_B)
   \<and> \<not> paused (before_show (registered gallery_A) (playing_page two_gallery_root))
         (ident video_B)
   \<and> paused (before_show (registered gallery_A) (playing_page two_gallery_root))
         (ident video_A)"
  using before_show_leaves_other_videos
    [of "registered gallery_A" "playing_page two_gallery_root"]
  by (simp add: sample_defs query_defs before_show_def pause_def)

text \<open>
  Claim C10 as written fails for nested carousels. On the page \<open>nested_root\<close> the
  initializer attaches an instance to the outer and to the inner carousel. After a
  transition of the inner carousel its video is playing; the before:show callback of the
  outer carousel then pauses it, though it is a video of the other instance.
\<close>

theorem outer_before_show_pauses_inner_video:
  "carousels (initialize range_selector (fresh_page nested_root))
     = [registered outer_gallery, registered inner_gallery]
   \<and> registered outer_gallery \<noteq> registered inner_gallery
   \<and> inner_video \<in> set (getElementsByTagName ''video'' (element (registered inner_gallery)))
   \<and> \<not> paused
         (shown (registered inner_gallery)
           (before_show (registered inner_gallery)
             (initialize range_selector (fresh_page nested_root))))
         (ident inner_video)
   \<and> paused
         (before_show (registered outer_gallery)
           (shown (registered inner_gallery)
             (before_show (registered inner_gallery)
               (initialize range_selector (fresh_page nested_root)))))
         (ident inner_video)"
  by (simp add: sample_defs query_defs initialize_def bulmaCarousel_attach_def
      bulmaSlider_attach_def register_callbacks_def on_def options_def
      before_show_def shown_def pause_def play_def)

section \<open>A completed transition\<close>

text \<open>
  Claim C1, as amended. A completed transition of a carousel is its before:show callback
  followed by its shown callback; in between, the library moves the active flag, so the
  carousel element is seen as \<open>c\<close> by the first and as \<open>c'\<close> by the second, with the same
  videos. The shown callback takes as current slide the first element, in document
  order, below the carousel's element that matches \<^verbatim>\<open>.slider-item.is-active\<close>. If the
  newly active slide \<open>slide\<close> is that first element (as it is unless a carousel with an
  active slide of its own sits in an earlier slide) and contains exactly one video
  element, then after the shown callback that video is playing, every other video in the
  subtree of this carousel is paused, and every element outside this carousel's videos
  has the playback state it had before the transition: at most one video of this
  carousel is playing.
\<close>

theorem transition_plays_active_video_only:
  assumes "distinct (map ident (descendants (element c')))"
    and "ident ` set (getElementsByTagName ''video'' (element c))
         = ident ` set (getElementsByTagName ''video'' (element c'))"
    and "querySelector active_slide_selector (element c') = Some slide"
    and "getElementsByTagName ''video'' slide = [video]"
  shows "\<not> paused (shown c' (before_show c p)) (ident video)
       \<and> (\<forall>other \<in> set (getElementsByTagName ''video'' (element c')).
             other \<noteq> video \<longrightarrow> paused (shown c' (before_show c p)) (ident other))
       \<and> (\<forall>i. i \<notin> ident ` set (getElementsByTagName ''video'' (element c')) \<longrightarrow>
             paused (shown c' (before_show c p)) i = paused p i)"
proof -
  let ?videos = "getElementsByTagName ''video'' (element c')"
  have played: "shown c' (before_show c p) = play video (before_show c p)"
    using assms(3,4) by (rule shown_play)
  have flags: "paused (play video (before_show c p)) =
      (\<lambda>i. if i = ident video then False else if i \<in> ident ` set ?videos then True
           else paused p i)"
    by (simp add: play_def before_show_paused assms(2) fun_eq_iff)
  have member: "video \<in> set ?videos"
    using slide_videos_subset [OF assms(3)] assms(4) by simp
  have "distinct (map ident ?videos)"
    using assms(1) by (simp add: getElementsByTagName_def distinct_map_filter)
  then have inj: "inj_on ident (set ?videos)"
    by (simp add: distinct_map)
  have others: "ident other \<noteq> ident video"
    if "other \<in> set ?videos" "other \<noteq> video" for other
    using that member inj by (auto dest: inj_onD)
  have outside: "i \<noteq> ident video" if "i \<notin> ident ` set ?videos" for i
    using that member by (metis imageI)
  show ?thesis
    unfolding played flags using others outside by simp
qed

theorem transition_plays_active_video_only_witness:
  "distinct (map ident (descendants (element (registered (reel 2)))))
   \<and> querySelector active_slide_selector (element (registered (reel 2))) = Some (slide_2 True)
   \<and> getElementsByTagName ''video'' (slide_2 True) = [clip_2]
   \<and> \<not> paused (shown (registered (reel 2))
          (before_show (registered (reel 1)) (playing_page (reel 1)))) (ident clip_2)
   \<and> paused (shown (registered (reel 2))
          (before_show (registered (reel 1)) (playing_page (reel 1)))) (ident clip_1)
   \<and> paused (shown (registered (reel 2))
          (before_show (registered (reel 1)) (playing_page (reel 1)))) (ident clip_4)
   \<and> \<not> paused (shown (registered (reel 2))
          (before_show (registered (reel 1)) (playing_page (reel 1)))) (ident video_A)"
  using transition_plays_active_video_only
    [of "registered (reel 2)" "registered (reel 1)" "slide_2 True" clip_2
      "playing_page (reel 1)"]
  by (simp add: sample_defs query_defs before_show_def shown_def pause_def play_def)

text \<open>
  Claim C1 as written fails in two ways, both seen on the page \<open>showcase_root\<close> with
  every video paused at first. Across carousels: after a transition of the first carousel
  and then one of the second, the newly active slide of the second holds exactly one
  video, which is playing, and the video of the first carousel is playing as well. With
  a nested carousel: after a transition of the third carousel, whose newly active slide
  \<open>late_slide\<close> holds exactly one video, that video is paused, and the video of the
  carousel nested in its earlier slide is playing instead.
\<close>

theorem transitions_leave_wrong_videos_playing:
  "carousels (initialize range_selector (fresh_page showcase_root))
     = [registered gallery_A, registered gallery_B, registered nesting_gallery,
        registered nested_gallery]
   \<and> paused (initialize range_selector (fresh_page showcase_root)) (ident video_A)
   \<and> paused (initialize range_selector (fresh_page showcase_root)) (ident video_B)
   \<and> paused (initialize range_selector (fresh_page showcase_root)) (ident nested_clip)
   \<and> paused (initialize range_selector (fresh_page showcase_root)) (ident late_clip)
   \<and> children (element (registered gallery_B)) = [slide_B]
   \<and> matches active_slide_selector slide_B
   \<and> getElementsByTagName ''video'' slide_B = [video_B]
   \<and> \<not> paused
         (shown (registered gallery_B) (before_show (registered gallery_B)
          (shown (registered gallery_A) (before_show (registered gallery_A)
            (initialize range_selector (fresh_page showcase_root))))))
         (ident video_B)
   \<and> \<not> paused
         (shown (registered gallery_B) (before_show (registered gallery_B)
          (shown (registered gallery_A) (before_show (registered gallery_A)
            (initialize range_selector (fresh_page showcase_root))))))
         (ident video_A)
   \<and> children (element (registered nesting_gallery)) = [early_slide, late_slide]
   \<and> \<not> matches active_slide_selector early_slide
   \<and> matches active_slide_selector late_slide
   \<and> getElementsByTagName ''video'' late_slide = [late_clip]
   \<and> paused
         (shown (registered nesting_gallery) (before_show (registered nesting_gallery)
        (shown (registered gallery_B) (before_show (registered gallery_B)
          (shown (registered gallery_A) (before_show (registered gallery_A)
            (initialize range_selector (fresh_page showcase_root))))))))
         (ident late_clip)
   \<and> \<not> paused
         (shown (registered nesting_gallery) (before_show (registered nesting_gallery)
        (shown (registered gallery_B) (before_show (registered gallery_B)
          (shown (registered gallery_A) (before_show (registered gallery_A)
            (initialize range_selector (fresh_page showcase_root))))))))
         (ident nested_clip)
   \<and> \<not> paused
         (shown (registered nesting_gallery) (before_show (registered nesting_gallery)
        (shown (registered gallery_B) (before_show (registered gallery_B)
          (shown (registered gallery_A) (before_show (registered gallery_A)
            (initialize range_selector (fresh_page showcase_root))))))))
         (ident video_A)"
  by (simp add: sample_defs query_defs initialize_def bulmaCarousel_attach_def
      bulmaSlider_attach_def register_callbacks_def on_def options_def
      before_show_def shown_def pause_def play_def)

section \<open>What the initializer does\<close>

text \<open>
  Claim C5. The initializer attaches the carousel widget to every element of the document
  that matches \<^verbatim>\<open>.carousel\<close>, one instance per element in document order, each with the
  same configuration written in the script (it takes no configuration from outside):
  slidesToScroll 1, slidesToShow 1, loop and infinite on, autoplay off, autoplaySpeed
  5000; each instance gets the two callbacks.
\<close>

theorem initialize_attaches_fixed_configuration:
  "carousels (initialize sl p) =
     carousels p @
     map (\<lambda>e. \<lparr>element = e,
                settings = \<lparr>slidesToScroll = 1, slidesToShow = 1, loop = True,
                  infinite' = True, autoplay = False, autoplaySpeed = 5000\<rparr>,
                listeners = [(''before:show'', Before_Show_Callback),
                  (''shown'', Shown_Callback)]\<rparr>)
       (filter (matches (Class_Selector [''carousel''])) (subtree (document p)))"
  by (simp add: initialize_eq bulmaCarousel_attach_def document_querySelectorAll_def
      carousel_selector_def options_def register_callbacks_def on_def comp_def)

text \<open>
  Claim C6. On a page where no element matches the carousel selector, the attach
  operation returns the empty collection of instances, and the loop over it registers
  nothing: the initializer leaves the carousel instances of the page as they were.
\<close>

theorem initialize_without_carousels:
  assumes "document_querySelectorAll carousel_selector (document p) = []"
  shows "bulmaCarousel_attach carousel_selector options (document p) = []
       \<and> map register_callbacks (bulmaCarousel_attach carousel_selector options (document p)) = []
       \<and> carousels (initialize sl p) = carousels p"
  using assms by (simp add: initialize_eq bulmaCarousel_attach_def)

theorem initialize_without_carousels_witness:
  "document_querySelectorAll carousel_selector (document (fresh_page slider_only_root)) = []
   \<and> bulmaCarousel_attach carousel_selector options (document (fresh_page slider_only_root)) = []
   \<and> carousels (initialize range_selector (fresh_page slider_only_root)) = []"
  using initialize_without_carousels [of "fresh_page slider_only_root" range_selector]
  by (simp add: sample_defs query_defs)

text \<open>
  Claim C7. On a page with elements carrying the slider marker and no carousel element,
  the initializer still gets to the slider attach call: afterwards the slider widget is
  attached to every element that matches the slider selector.
\<close>

theorem initialize_attaches_sliders_without_carousels:
  assumes "document_querySelectorAll carousel_selector (document p) = []"
    and "document_querySelectorAll sl (document p) \<noteq> []"
  shows "sliders (initialize sl p) = sliders p @ document_querySelectorAll sl (document p)
       \<and> sliders (initialize sl p) \<noteq> sliders p
       \<and> carousels (initialize sl p) = carousels p"
  using assms by (simp add: initialize_eq bulmaCarousel_attach_def bulmaSlider_attach_def)

theorem initialize_attaches_sliders_without_carousels_witness:
  "document_querySelectorAll carousel_selector (document (fresh_page slider_only_root)) = []
   \<and> document_querySelectorAll range_selector (document (fresh_page slider_only_root))
       = [range_input]
   \<and> sliders (initialize range_selector (fresh_page slider_only_root)) = [range_input]
   \<and> carousels (initialize range_selector (fresh_page slider_only_root)) = []"
  using initialize_attaches_sliders_without_carousels
    [of "fresh_page slider_only_root" range_selector]
  by (simp add: sample_defs query_defs)

text \<open>
  Claim C4. The initializer changes the page in two places only: it extends the attached
  carousel instances (with their registered callbacks) and the attached sliders. It sends
  no request, writes nothing to storage, and leaves the document and the playback state
  of every media element as they were. A registered callback, when it runs, changes only
  the \<^verbatim>\<open>paused\<close> attributes and adds calls on media elements; it sends no request and
  writes nothing to storage either.
\<close>

theorem initialize_side_effects:
  "(\<exists>attached ranges.
       initialize sl p = p\<lparr>carousels := carousels p @ attached, sliders := sliders p @ ranges\<rparr>)
   \<and> requests (initialize sl p) = requests p
   \<and> storage (initialize sl p) = storage p
   \<and> document (initialize sl p) = document p
   \<and> paused (initialize sl p) = paused p
   \<and> media_calls (initialize sl p) = media_calls p
   \<and> (\<exists>flags calls.
         invoke cb c q = q\<lparr>paused := flags, media_calls := media_calls q @ calls\<rparr>)
   \<and> requests (invoke cb c q) = requests q
   \<and> storage (invoke cb c q) = storage q"
proof -
  obtain flags calls
    where run: "invoke cb c q = q\<lparr>paused := flags, media_calls := media_calls q @ calls\<rparr>"
    using invoke_eq by blast
  have "\<exists>attached ranges.
      initialize sl p = p\<lparr>carousels := carousels p @ attached, sliders := sliders p @ ranges\<rparr>"
    using initialize_eq by blast
  moreover have "\<exists>flags calls.
      invoke cb c q = q\<lparr>paused := flags, media_calls := media_calls q @ calls\<rparr>"
    by (rule invoke_eq)
  moreover have "requests (invoke cb c q) = requests q" "storage (invoke cb c q) = storage q"
    by (simp_all add: run)
  ultimately show ?thesis by (simp add: initialize_eq)
qed

end
